theory Spec2Isabelle
  imports Main "HOL-Library.Sublist"
begin

section \<open>Data model\<close>

text \<open>
  A Python \<open>str\<close> is a sequence of Unicode code points; it is modelled as a list of
  natural numbers. \<open>lit\<close> embeds a literal of the source (ASCII) into that type.
  Python \<open>bytes\<close> are lists of 8-bit characters, the type \<open>string\<close> of HOL; \<open>of_char\<close> reads a
  byte as a number and \<open>char_of\<close> makes the byte of a number below 256.
\<close>

type_synonym pystr = "nat list"
type_synonym bytes = string

definition lit :: "string \<Rightarrow> pystr" where
  "lit s = map of_char s"

text \<open>
  The values a \<open>Dict[str, Any]\<close> can hold: the JSON-shaped Python values (\<open>None\<close>,
  \<open>bool\<close>, \<open>int\<close>, \<open>str\<close>, \<open>list\<close>, \<open>dict\<close> with \<open>str\<close> keys in insertion order) and
  \<open>PyObject\<close>, standing for a value of any type \<open>json.dumps\<close> has no encoder for
  (a \<open>set\<close>, \<open>bytes\<close>, an instance of a user class). Python \<open>float\<close> values are
  outside this model.
\<close>

datatype pyval =
    PyNone
  | PyBool bool
  | PyInt int
  | PyStr pystr
  | PyList "pyval list"
  | PyDict "(pystr \<times> pyval) list"
  | PyObject

text \<open>
  Exceptions as values. \<open>HTTPException\<close> is the one the source raises itself;
  \<open>RequestValidationError\<close> is what FastAPI raises when a required parameter
  (\<open>Header(...)\<close>) is missing; \<open>TypeError\<close> is what \<open>json.dumps\<close> raises on an object
  it cannot serialize; \<open>UnicodeEncodeError\<close> and \<open>UnicodeDecodeError\<close> are what \<open>str.encode\<close> and
  \<open>bytes.decode\<close> raise;
  \<open>TransportError\<close> is the outbound call failing without a response;
  \<open>JSONDecodeError\<close> is \<open>response.json()\<close> failing; \<open>ResponseValidationError\<close> is what
  FastAPI raises when the value a handler returns does not fit the route's
  \<open>response_model\<close>.
\<close>

datatype error =
    HTTPException int pystr
  | RequestValidationError
  | TypeError
  | UnicodeEncodeError
  | TransportError
  | JSONDecodeError
  | UnicodeDecodeError
  | ResponseValidationError

text \<open>
  The status the framework answers with: an \<open>HTTPException\<close> carries its own, a
  request validation error is 422, every exception the handler does not catch is 500.
\<close>

fun http_status :: "error \<Rightarrow> int" where
  "http_status (HTTPException code _) = code"
| "http_status RequestValidationError = 422"
| "http_status _ = 500"

fun http_detail :: "error \<Rightarrow> pystr option" where
  "http_detail (HTTPException _ d) = Some d"
| "http_detail _ = None"

datatype qvalue = QStr pystr | QInt int

record request =
  url :: pystr
  params :: "(pystr \<times> qvalue) list"
  headers :: "(pystr \<times> pystr) list"

record response =
  status_code :: int
  response_text :: pystr
  json :: "pyval option"

record WebSocketUrlResponse =
  wsUrl :: pystr

type_synonym client = "request \<Rightarrow> error + response"

section \<open>String operations of the source\<close>

definition startswith :: "pystr \<Rightarrow> pystr \<Rightarrow> bool" where
  "startswith s p = prefix p s"

text \<open>
  \<open>str.replace(old, new)\<close>: the occurrences of \<open>old\<close> are found from left to right, without
  overlap, and each is replaced by \<open>new\<close>. With an empty \<open>old\<close>, \<open>new\<close> is inserted before
  every character and at the end.
\<close>

function replace :: "pystr \<Rightarrow> pystr \<Rightarrow> pystr \<Rightarrow> pystr" where
  "replace [] old new = (if old = [] then new else [])"
| "replace (c # cs) old new =
     (if old = [] then new @ c # replace cs old new
      else if prefix old (c # cs) then new @ replace (drop (length old) (c # cs)) old new
      else c # replace cs old new)"
  by pat_completeness auto
termination
  by (relation "measure (\<lambda>(s, old, new). length s)") auto

section \<open>The credential gate\<close>

definition BASE_URL :: pystr where
  "BASE_URL = lit ''https://registry.smithery.ai''"

definition verify_token :: "pystr \<Rightarrow> error + pystr" where
  "verify_token authorization =
     (if \<not> startswith authorization (lit ''Bearer '')
      then Inl (HTTPException 401 (lit ''Invalid authorization header format''))
      else let token = replace authorization (lit ''Bearer '') [] in
        if token = [] then Inl (HTTPException 401 (lit ''No token provided''))
        else Inr token)"

text \<open>
  \<open>authorization: str = Header(...)\<close>: the header is required; the framework raises its
  validation error when it is absent, and calls \<open>verify_token\<close> otherwise.
\<close>

definition Depends_verify_token :: "pystr option \<Rightarrow> error + pystr" where
  "Depends_verify_token header =
     (case header of None \<Rightarrow> Inl RequestValidationError | Some h \<Rightarrow> verify_token h)"

section \<open>The forwarding operations\<close>

definition list_servers_params :: "pystr option \<Rightarrow> int \<Rightarrow> int \<Rightarrow> (pystr \<times> qvalue) list" where
  "list_servers_params q page page_size =
     (case q of None \<Rightarrow> [] | Some s \<Rightarrow> if s = [] then [] else [(lit ''q'', QStr s)])
     @ (if page \<noteq> 0 then [(lit ''page'', QInt page)] else [])
     @ (if page_size \<noteq> 0 then [(lit ''pageSize'', QInt page_size)] else [])"

definition list_servers_request :: "pystr option \<Rightarrow> int \<Rightarrow> int \<Rightarrow> pystr \<Rightarrow> request" where
  "list_servers_request q page page_size authorization =
     \<lparr>url = BASE_URL @ lit ''/servers'',
      params = list_servers_params q page page_size,
      headers = [(lit ''Authorization'', authorization)]\<rparr>"

definition get_server_request :: "pystr \<Rightarrow> pystr \<Rightarrow> request" where
  "get_server_request qualified_name authorization =
     \<lparr>url = BASE_URL @ lit ''/servers/'' @ qualified_name,
      params = [],
      headers = [(lit ''Authorization'', authorization)]\<rparr>"

text \<open>What both handlers do with the outcome of \<open>client.get\<close>.\<close>

definition forward :: "client \<Rightarrow> request \<Rightarrow> error + pyval" where
  "forward get req =
     (case get req of
        Inl e \<Rightarrow> Inl e
      | Inr r \<Rightarrow>
          if status_code r \<noteq> 200
          then Inl (HTTPException (status_code r) (lit ''Smithery Registry API error: '' @ response_text r))
          else (case json r of None \<Rightarrow> Inl JSONDecodeError | Some v \<Rightarrow> Inr v))"

definition list_servers :: "client \<Rightarrow> pystr option \<Rightarrow> int \<Rightarrow> int \<Rightarrow> pystr \<Rightarrow> error + pyval" where
  "list_servers get q page page_size authorization =
     forward get (list_servers_request q page page_size authorization)"

definition get_server :: "client \<Rightarrow> pystr \<Rightarrow> pystr \<Rightarrow> error + pyval" where
  "get_server get qualified_name authorization =
     forward get (get_server_request qualified_name authorization)"

text \<open>
  The routes: the framework resolves the dependency first, fills in the defaults of the
  signature (\<open>Query(None)\<close>, \<open>Query(1)\<close>, \<open>Query(10)\<close>) for the query parameters the caller
  left out, and calls the handler. What the handler returns is validated against the
  route's \<open>response_model\<close> and reshaped by it; the validation of a model
  (\<open>ServerListResponse\<close>, \<open>ServerDetailResponse\<close>) is a parameter here: it gives the body
  to send, or \<open>None\<close> when the value does not fit, which the framework answers with
  status 500. The name of a Detail request is one path segment of the route
  \<open>/servers/{qualified_name}\<close>.
\<close>

type_synonym response_model = "pyval \<Rightarrow> pyval option"

definition validate_response :: "response_model \<Rightarrow> error + pyval \<Rightarrow> error + pyval" where
  "validate_response model result =
     (case result of
        Inl e \<Rightarrow> Inl e
      | Inr v \<Rightarrow> (case model v of None \<Rightarrow> Inl ResponseValidationError | Some body \<Rightarrow> Inr body))"

definition default_page :: int where "default_page = 1"
definition default_page_size :: int where "default_page_size = 10"

definition route_list_servers ::
  "client \<Rightarrow> response_model \<Rightarrow> pystr option \<Rightarrow> pystr option \<Rightarrow> int option \<Rightarrow> int option
     \<Rightarrow> error + pyval" where
  "route_list_servers get ServerListResponse header q page page_size =
     (case Depends_verify_token header of
        Inl e \<Rightarrow> Inl e
      | Inr authorization \<Rightarrow>
          validate_response ServerListResponse
            (list_servers get q
              (case page of None \<Rightarrow> default_page | Some p \<Rightarrow> p)
              (case page_size of None \<Rightarrow> default_page_size | Some p \<Rightarrow> p)
              authorization))"

definition route_get_server ::
  "client \<Rightarrow> response_model \<Rightarrow> pystr option \<Rightarrow> pystr \<Rightarrow> error + pyval" where
  "route_get_server get ServerDetailResponse header qualified_name =
     (case Depends_verify_token header of
        Inl e \<Rightarrow> Inl e
      | Inr authorization \<Rightarrow>
          validate_response ServerDetailResponse (get_server get qualified_name authorization))"

text \<open>The request a route sends out, if it sends one.\<close>

definition route_list_servers_outbound ::
  "pystr option \<Rightarrow> pystr option \<Rightarrow> int option \<Rightarrow> int option \<Rightarrow> request option" where
  "route_list_servers_outbound header q page page_size =
     (case Depends_verify_token header of
        Inl e \<Rightarrow> None
      | Inr authorization \<Rightarrow>
          Some (list_servers_request q
            (case page of None \<Rightarrow> default_page | Some p \<Rightarrow> p)
            (case page_size of None \<Rightarrow> default_page_size | Some p \<Rightarrow> p)
            authorization))"

definition route_get_server_outbound :: "pystr option \<Rightarrow> pystr \<Rightarrow> request option" where
  "route_get_server_outbound header qualified_name =
     (case Depends_verify_token header of
        Inl e \<Rightarrow> None
      | Inr authorization \<Rightarrow> Some (get_server_request qualified_name authorization))"

section \<open>The connection URL builder\<close>

record WebSocketUrlRequest =
  qualifiedName :: pystr
  config :: "(pystr \<times> pyval) list"

subsection \<open>\<open>json.dumps\<close>\<close>

definition hexdigit :: "nat \<Rightarrow> nat" where
  "hexdigit d = (if d < 10 then 48 + d else 87 + d)"

definition hex4 :: "nat \<Rightarrow> pystr" where
  "hex4 n = [hexdigit (n div 4096 mod 16), hexdigit (n div 256 mod 16),
             hexdigit (n div 16 mod 16), hexdigit (n mod 16)]"

definition escape_char :: "nat \<Rightarrow> pystr" where
  "escape_char c =
     (if c = 34 then [92, 34]
      else if c = 92 then [92, 92]
      else if 32 \<le> c \<and> c \<le> 126 then [c]
      else if c = 10 then [92, 110]
      else if c = 13 then [92, 114]
      else if c = 9 then [92, 116]
      else if c = 8 then [92, 98]
      else if c = 12 then [92, 102]
      else if c < 0x10000 then [92, 117] @ hex4 c
      else let n = c - 0x10000;
               s1 = 0xd800 + n div 1024 mod 1024;
               s2 = 0xdc00 + n mod 1024
           in [92, 117] @ hex4 s1 @ [92, 117] @ hex4 s2)"

definition encode_basestring_ascii :: "pystr \<Rightarrow> pystr" where
  "encode_basestring_ascii s = [34] @ concat (map escape_char s) @ [34]"

fun digits :: "nat \<Rightarrow> pystr" where
  "digits n = (if n < 10 then [48 + n] else digits (n div 10) @ [48 + n mod 10])"

declare digits.simps [simp del]

definition int_repr :: "int \<Rightarrow> pystr" where
  "int_repr i = (if i < 0 then 45 # digits (nat (- i)) else digits (nat i))"

fun join :: "pystr \<Rightarrow> pystr list \<Rightarrow> pystr" where
  "join sep [] = []"
| "join sep [x] = x"
| "join sep (x # y # ys) = x @ sep @ join sep (y # ys)"

fun collect :: "(error + 'a) list \<Rightarrow> error + 'a list" where
  "collect [] = Inr []"
| "collect (Inl e # rs) = Inl e"
| "collect (Inr x # rs) = (case collect rs of Inl e \<Rightarrow> Inl e | Inr xs \<Rightarrow> Inr (x # xs))"

fun dumps :: "pyval \<Rightarrow> error + pystr" where
  "dumps PyNone = Inr (lit ''null'')"
| "dumps (PyBool b) = Inr (if b then lit ''true'' else lit ''false'')"
| "dumps (PyInt i) = Inr (int_repr i)"
| "dumps (PyStr s) = Inr (encode_basestring_ascii s)"
| "dumps (PyList vs) =
     (case collect (map dumps vs) of
        Inl e \<Rightarrow> Inl e
      | Inr ts \<Rightarrow> Inr (lit ''['' @ join (lit '', '') ts @ lit '']''))"
| "dumps (PyDict kvs) =
     (case collect (map (\<lambda>(k, v). case dumps v of
                           Inl e \<Rightarrow> Inl e
                         | Inr t \<Rightarrow> Inr (encode_basestring_ascii k @ lit '': '' @ t)) kvs) of
        Inl e \<Rightarrow> Inl e
      | Inr ts \<Rightarrow> Inr (lit ''{'' @ join (lit '', '') ts @ lit ''}''))"
| "dumps PyObject = Inl TypeError"


subsection \<open>\<open>str.encode\<close> and \<open>bytes.decode\<close>: UTF-8\<close>

definition utf8_char :: "nat \<Rightarrow> bytes option" where
  "utf8_char c =
     (if c < 0x80 then Some [char_of c]
      else if c < 0x800 then Some [char_of (0xC0 + c div 64), char_of (0x80 + c mod 64)]
      else if 0xD800 \<le> c \<and> c < 0xE000 then None
      else if c < 0x10000 then
        Some [char_of (0xE0 + c div 4096), char_of (0x80 + c div 64 mod 64), char_of (0x80 + c mod 64)]
      else if c < 0x110000 then
        Some [char_of (0xF0 + c div 262144), char_of (0x80 + c div 4096 mod 64),
              char_of (0x80 + c div 64 mod 64), char_of (0x80 + c mod 64)]
      else None)"

fun encode :: "pystr \<Rightarrow> error + bytes" where
  "encode [] = Inr []"
| "encode (c # cs) =
     (case utf8_char c of
        None \<Rightarrow> Inl UnicodeEncodeError
      | Some bs \<Rightarrow> (case encode cs of Inl e \<Rightarrow> Inl e | Inr r \<Rightarrow> Inr (bs @ r)))"

definition continuation :: "nat \<Rightarrow> bool" where
  "continuation b = (0x80 \<le> b \<and> b < 0xC0)"

fun utf8_decode :: "nat list \<Rightarrow> pystr option" where
  "utf8_decode [] = Some []"
| "utf8_decode (b # bs) =
     (if b < 0x80 then map_option ((#) b) (utf8_decode bs)
      else if 0xC2 \<le> b \<and> b < 0xE0 then
        (case bs of
           b1 # r \<Rightarrow>
             if continuation b1
             then map_option ((#) ((b - 0xC0) * 64 + (b1 - 0x80))) (utf8_decode r)
             else None
         | _ \<Rightarrow> None)
      else if 0xE0 \<le> b \<and> b < 0xF0 then
        (case bs of
           b1 # b2 # r \<Rightarrow>
             if continuation b1 \<and> continuation b2
                \<and> (if b = 0xE0 then 0xA0 \<le> b1 else if b = 0xED then b1 < 0xA0 else True)
             then map_option ((#) ((b - 0xE0) * 4096 + (b1 - 0x80) * 64 + (b2 - 0x80))) (utf8_decode r)
             else None
         | _ \<Rightarrow> None)
      else if 0xF0 \<le> b \<and> b < 0xF5 then
        (case bs of
           b1 # b2 # b3 # r \<Rightarrow>
             if continuation b1 \<and> continuation b2 \<and> continuation b3
                \<and> (if b = 0xF0 then 0x90 \<le> b1 else if b = 0xF4 then b1 < 0x90 else True)
             then map_option ((#) ((b - 0xF0) * 262144 + (b1 - 0x80) * 4096 + (b2 - 0x80) * 64 + (b3 - 0x80)))
                    (utf8_decode r)
             else None
         | _ \<Rightarrow> None)
      else None)"

definition decode :: "bytes \<Rightarrow> error + pystr" where
  "decode bs = (case utf8_decode (map of_char bs) of None \<Rightarrow> Inl UnicodeDecodeError | Some s \<Rightarrow> Inr s)"

subsection \<open>\<open>base64.b64encode\<close>\<close>

definition b64chars :: string where
  "b64chars = ''ABCDEFGHIJKLMNOPQRSTUVWXYZabcdefghijklmnopqrstuvwxyz0123456789+/''"

definition b64char :: "nat \<Rightarrow> char" where
  "b64char i = b64chars ! i"

fun b64encode :: "bytes \<Rightarrow> bytes" where
  "b64encode [] = []"
| "b64encode [a] =
     (let n = of_char a
      in [b64char (n div 4), b64char (n mod 4 * 16), CHR ''='', CHR ''=''])"
| "b64encode [a, b] =
     (let n = of_char a * 256 + of_char b
      in [b64char (n div 1024), b64char (n div 16 mod 64), b64char (n mod 16 * 4), CHR ''=''])"
| "b64encode (a # b # c # rest) =
     (let n = of_char a * 65536 + of_char b * 256 + of_char c
      in [b64char (n div 262144), b64char (n div 4096 mod 64), b64char (n div 64 mod 64),
          b64char (n mod 64)] @ b64encode rest)"

subsection \<open>The handler\<close>

definition create_websocket_url :: "'a WebSocketUrlRequest_scheme \<Rightarrow> error + WebSocketUrlResponse" where
  "create_websocket_url request =
     (case dumps (PyDict (config request)) of
        Inl e \<Rightarrow> Inl e
      | Inr config_json \<Rightarrow>
          (case encode config_json of
             Inl e \<Rightarrow> Inl e
           | Inr b \<Rightarrow>
               (case decode (b64encode b) of
                  Inl e \<Rightarrow> Inl e
                | Inr config_base64 \<Rightarrow>
                    Inr \<lparr>wsUrl = lit ''https://server.smithery.ai/'' @ qualifiedName request
                                 @ lit ''/ws?config='' @ config_base64\<rparr>)))"


section \<open>Notions of the specification\<close>

text \<open>\<open>old in s\<close>: the string \<open>old\<close> occurs in \<open>s\<close>.\<close>

fun contains :: "pystr \<Rightarrow> pystr \<Rightarrow> bool" where
  "contains [] old = (old = [])"
| "contains (c # cs) old = (prefix old (c # cs) \<or> contains cs old)"

text \<open>A success status of HTTP is one of the 2xx class.\<close>

definition is_success :: "int \<Rightarrow> bool" where
  "is_success code = (200 \<le> code \<and> code < 300)"

text \<open>The registry's answer in the specification's example of a failing lookup.\<close>

definition not_found :: response where
  \<open>not_found = \<lparr>status_code = 404, response_text = lit ''{"error":"not found"}'', json = None\<rparr>\<close>

subsection \<open>Decoding the configuration segment\<close>



text \<open>A parser of JSON texts. A number with a fraction or an exponent is a \<open>float\<close> and is not parsed.\<close>

fun skip_ws :: "pystr \<Rightarrow> pystr" where
  "skip_ws [] = []"
| "skip_ws (c # cs) = (if c = 32 \<or> c = 9 \<or> c = 10 \<or> c = 13 then skip_ws cs else c # cs)"

definition hexval :: "nat \<Rightarrow> nat option" where
  "hexval c =
     (if 48 \<le> c \<and> c \<le> 57 then Some (c - 48)
      else if 97 \<le> c \<and> c \<le> 102 then Some (c - 87)
      else if 65 \<le> c \<and> c \<le> 70 then Some (c - 55)
      else None)"

fun unhex4 :: "pystr \<Rightarrow> nat option" where
  "unhex4 [a, b, c, d] =
     (case (hexval a, hexval b, hexval c, hexval d) of
        (Some x, Some y, Some z, Some w) \<Rightarrow> Some (x * 4096 + y * 256 + z * 16 + w)
      | _ \<Rightarrow> None)"
| "unhex4 _ = None"

definition unescape :: "nat \<Rightarrow> nat option" where
  "unescape e =
     (if e = 34 then Some 34
      else if e = 92 then Some 92
      else if e = 47 then Some 47
      else if e = 98 then Some 8
      else if e = 102 then Some 12
      else if e = 110 then Some 10
      else if e = 114 then Some 13
      else if e = 116 then Some 9
      else None)"

definition cons_char :: "nat \<Rightarrow> (pystr \<times> pystr) option \<Rightarrow> (pystr \<times> pystr) option" where
  "cons_char c r = map_option (\<lambda>(t, rest). (c # t, rest)) r"

fun scanstring :: "pystr \<Rightarrow> (pystr \<times> pystr) option" where
  "scanstring [] = None"
| "scanstring (c # cs) =
     (if c = 34 then Some ([], cs)
      else if c = 92 then
        (case cs of
           [] \<Rightarrow> None
         | e # es \<Rightarrow>
             if e = 117 then
               (case unhex4 (take 4 es) of
                  None \<Rightarrow> None
                | Some u \<Rightarrow>
                    if 0xd800 \<le> u \<and> u \<le> 0xdbff \<and> take 2 (drop 4 es) = [92, 117] then
                      (case unhex4 (take 4 (drop 6 es)) of
                         None \<Rightarrow> None
                       | Some u2 \<Rightarrow>
                           if 0xdc00 \<le> u2 \<and> u2 \<le> 0xdfff
                           then cons_char (0x10000 + (u - 0xd800) * 1024 + (u2 - 0xdc00))
                                  (scanstring (drop 10 es))
                           else cons_char u (scanstring (drop 4 es)))
                    else cons_char u (scanstring (drop 4 es)))
             else
               (case unescape e of
                  None \<Rightarrow> None
                | Some x \<Rightarrow> cons_char x (scanstring es)))
      else if c < 32 then None
      else cons_char c (scanstring cs))"

definition is_digit :: "nat \<Rightarrow> bool" where
  "is_digit c = (48 \<le> c \<and> c \<le> 57)"

definition parse_number :: "pystr \<Rightarrow> (pyval \<times> pystr) option" where
  "parse_number s =
     (let neg = (take 1 s = [45]);
          t = (if neg then drop 1 s else s);
          ds = (if take 1 t = [48] then [48] else takeWhile is_digit t);
          rest = drop (length ds) t
      in if ds = [] then None
         else if take 1 rest = [46] \<or> take 1 rest = [101] \<or> take 1 rest = [69] then None
         else let m = int (foldl (\<lambda>a d. 10 * a + (d - 48)) 0 ds)
              in Some (PyInt (if neg then - m else m), rest))"

fun setitem :: "('k \<times> 'v) list \<Rightarrow> 'k \<Rightarrow> 'v \<Rightarrow> ('k \<times> 'v) list" where
  "setitem [] k v = [(k, v)]"
| "setitem ((k', v') # d) k v = (if k' = k then (k, v) # d else (k', v') # setitem d k v)"

definition dict_of :: "('k \<times> 'v) list \<Rightarrow> ('k \<times> 'v) list" where
  "dict_of pairs = foldl (\<lambda>d (k, v). setitem d k v) [] pairs"

fun parse_value :: "nat \<Rightarrow> pystr \<Rightarrow> (pyval \<times> pystr) option"
  and parse_array :: "nat \<Rightarrow> pystr \<Rightarrow> (pyval list \<times> pystr) option"
  and parse_object :: "nat \<Rightarrow> pystr \<Rightarrow> ((pystr \<times> pyval) list \<times> pystr) option"
where
  "parse_value 0 s = None"
| "parse_value (Suc n) s =
     (if take 1 s = [34] then
        map_option (\<lambda>(t, r). (PyStr t, r)) (scanstring (drop 1 s))
      else if take 1 s = [123] then
        (if take 1 (skip_ws (drop 1 s)) = [125]
         then Some (PyDict [], drop 1 (skip_ws (drop 1 s)))
         else map_option (\<lambda>(m, r). (PyDict (dict_of m), r)) (parse_object n (skip_ws (drop 1 s))))
      else if take 1 s = [91] then
        (if take 1 (skip_ws (drop 1 s)) = [93]
         then Some (PyList [], drop 1 (skip_ws (drop 1 s)))
         else map_option (\<lambda>(vs, r). (PyList vs, r)) (parse_array n (skip_ws (drop 1 s))))
      else if prefix (lit ''null'') s then Some (PyNone, drop 4 s)
      else if prefix (lit ''true'') s then Some (PyBool True, drop 4 s)
      else if prefix (lit ''false'') s then Some (PyBool False, drop 5 s)
      else parse_number s)"
| "parse_array 0 s = None"
| "parse_array (Suc n) s =
     (case parse_value n s of
        None \<Rightarrow> None
      | Some (v, r) \<Rightarrow>
          if take 1 (skip_ws r) = [93] then Some ([v], drop 1 (skip_ws r))
          else if take 1 (skip_ws r) = [44] then
            map_option (\<lambda>(vs, r'). (v # vs, r')) (parse_array n (skip_ws (drop 1 (skip_ws r))))
          else None)"
| "parse_object 0 s = None"
| "parse_object (Suc n) s =
     (if take 1 s = [34] then
        (case scanstring (drop 1 s) of
           None \<Rightarrow> None
         | Some (k, r) \<Rightarrow>
             if take 1 (skip_ws r) = [58] then
               (case parse_value n (skip_ws (drop 1 (skip_ws r))) of
                  None \<Rightarrow> None
                | Some (v, r') \<Rightarrow>
                    if take 1 (skip_ws r') = [125] then Some ([(k, v)], drop 1 (skip_ws r'))
                    else if take 1 (skip_ws r') = [44] then
                      map_option (\<lambda>(m, r''). ((k, v) # m, r''))
                        (parse_object n (skip_ws (drop 1 (skip_ws r'))))
                    else None)
             else None)
      else None)"

definition loads :: "pystr \<Rightarrow> pyval option" where
  "loads s =
     (case parse_value (Suc (length s)) (skip_ws s) of
        None \<Rightarrow> None
      | Some (v, r) \<Rightarrow> if skip_ws r = [] then Some v else None)"



subsection \<open>Serializable values and their JSON text\<close>

text \<open>
  A value is serializable when no object without a JSON encoding occurs in it. \<open>jtext\<close> is
  the text \<open>dumps\<close> produces for a serializable value; \<open>ascii\<close> is a byte below 128.
\<close>

fun serializable :: "pyval \<Rightarrow> bool" where
  "serializable (PyList vs) = list_all serializable vs"
| "serializable (PyDict kvs) = list_all (\<lambda>(k, v). serializable v) kvs"
| "serializable PyObject = False"
| "serializable _ = True"

definition member_text :: "pystr \<Rightarrow> pystr \<Rightarrow> pystr" where
  "member_text k t = encode_basestring_ascii k @ lit '': '' @ t"

fun jtext :: "pyval \<Rightarrow> pystr" where
  "jtext PyNone = lit ''null''"
| "jtext (PyBool b) = (if b then lit ''true'' else lit ''false'')"
| "jtext (PyInt i) = int_repr i"
| "jtext (PyStr s) = encode_basestring_ascii s"
| "jtext (PyList vs) = lit ''['' @ join (lit '', '') (map jtext vs) @ lit '']''"
| "jtext (PyDict kvs) =
     lit ''{'' @ join (lit '', '') (map (\<lambda>(k, v). member_text k (jtext v)) kvs) @ lit ''}''"
| "jtext PyObject = []"

definition ascii :: "char \<Rightarrow> bool" where
  "ascii c = (of_char c < (128::nat))"







section \<open>Strings\<close>

lemma lit_Nil: "lit [] = []"
  by (simp add: lit_def)

lemma lit_Cons: "lit (c # cs) = of_char c # lit cs"
  by (simp add: lit_def)

lemmas lit_simps = lit_Nil lit_Cons

declare replace.simps [simp del]

lemma replace_old_append:
  assumes "old \<noteq> []"
  shows "replace (old @ s) old new = new @ replace s old new"
proof -
  from assms obtain c cs where eq: "old @ s = c # cs" by (cases old) auto
  have "replace (c # cs) old new = new @ replace (drop (length old) (c # cs)) old new"
    using assms eq by (subst replace.simps(2)) (metis prefixI)
  then show ?thesis using eq by (metis append_eq_conv_conj)
qed


lemma replace_not_contained:
  "old \<noteq> [] \<Longrightarrow> \<not> contains s old \<Longrightarrow> replace s old new = s"
  by (induction s) (simp_all add: replace.simps)

lemma Bearer_nonempty: "lit ''Bearer '' \<noteq> []"
  by (simp add: lit_simps)

lemma search_nonempty: "lit ''search'' \<noteq> []" "[] \<noteq> lit ''search''"
  by (simp_all add: lit_simps)

lemma param_names_distinct:
  "lit ''q'' \<noteq> lit ''page''" "lit ''q'' \<noteq> lit ''pageSize''" "lit ''page'' \<noteq> lit ''pageSize''"
  "lit ''page'' \<noteq> lit ''q''" "lit ''pageSize'' \<noteq> lit ''q''" "lit ''pageSize'' \<noteq> lit ''page''"
  by (simp_all add: lit_simps)

section \<open>The credential gate\<close>

lemma verify_token_Bearer:
  "verify_token (lit ''Bearer '' @ T) =
     (if replace T (lit ''Bearer '') [] = [] then Inl (HTTPException 401 (lit ''No token provided''))
      else Inr (replace T (lit ''Bearer '') []))"
  by (simp add: verify_token_def startswith_def Let_def replace_old_append [OF Bearer_nonempty])

lemma verify_token_no_prefix:
  "\<not> startswith h (lit ''Bearer '') \<Longrightarrow>
     verify_token h = Inl (HTTPException 401 (lit ''Invalid authorization header format''))"
  by (simp add: verify_token_def)

lemma accepted_abc: "Depends_verify_token (Some (lit ''Bearer abc'')) = Inr (lit ''abc'')"
  by (simp add: Depends_verify_token_def verify_token_def startswith_def lit_simps replace.simps)

lemmas route_defs =
  route_list_servers_outbound_def route_get_server_outbound_def Depends_verify_token_def
  list_servers_request_def get_server_request_def list_servers_params_def
  default_page_def default_page_size_def

text \<open>
  C2, as the code has it. For a token \<open>T\<close> in which \<open>Bearer \<close> does not occur, the header
  \<open>Bearer T\<close> is accepted if and only if \<open>T\<close> is not empty, and \<open>T\<close> is the validated token;
  a header that is present and does not start with \<open>Bearer \<close> is rejected with status 401.
  An absent header never reaches the gate: the framework rejects the request, with
  status 422.
\<close>

theorem verify_token_gate:
  "(\<not> contains T (lit ''Bearer '') \<longrightarrow>
      verify_token (lit ''Bearer '' @ T) =
        (if T = [] then Inl (HTTPException 401 (lit ''No token provided'')) else Inr T))
   \<and> (\<not> startswith h (lit ''Bearer '') \<longrightarrow>
      verify_token h = Inl (HTTPException 401 (lit ''Invalid authorization header format'')))
   \<and> Depends_verify_token (Some h) = verify_token h
   \<and> Depends_verify_token None = Inl RequestValidationError
   \<and> http_status RequestValidationError = 422"
  by (simp add: verify_token_Bearer verify_token_no_prefix replace_not_contained [OF Bearer_nonempty]
      Depends_verify_token_def)

theorem verify_token_gate_witness:
  "\<not> contains (lit ''abc'') (lit ''Bearer '') \<and>
   verify_token (lit ''Bearer '' @ lit ''abc'') = Inr (lit ''abc'') \<and>
   \<not> startswith (lit ''Basic abc'') (lit ''Bearer '') \<and>
   verify_token (lit ''Basic abc'') = Inl (HTTPException 401 (lit ''Invalid authorization header format''))"
  using verify_token_gate [of "lit ''abc''" "lit ''Basic abc''"]
  by (simp add: lit_simps startswith_def)

text \<open>
  C2 as stated fails twice. The token \<open>Bearer \<close> is not empty, and the header made of
  the prefix and that token is rejected; the token \<open>Bearer x\<close> is accepted, and the
  validated token is \<open>x\<close>, not the token. An absent header is not answered with 401.
\<close>

theorem verify_token_gate_counterexample:
  "lit ''Bearer '' \<noteq> [] \<and>
   verify_token (lit ''Bearer '' @ lit ''Bearer '') = Inl (HTTPException 401 (lit ''No token provided'')) \<and>
   verify_token (lit ''Bearer '' @ lit ''Bearer x'') = Inr (lit ''x'') \<and>
   lit ''x'' \<noteq> lit ''Bearer x'' \<and>
   Depends_verify_token None = Inl RequestValidationError \<and>
   http_status RequestValidationError \<noteq> 401"
  by (simp add: verify_token_def startswith_def Depends_verify_token_def lit_simps replace.simps)


section \<open>The forwarding operations\<close>

text \<open>
  C3, evaluated on the code: for the header \<open>Bearer abc\<close> both forwarding operations send
  \<open>Authorization: abc\<close>, the validated token without the \<open>Bearer \<close> prefix, and not the
  credential the caller supplied.
\<close>

theorem outbound_authorization_is_bare_token:
  "map_option headers (route_list_servers_outbound (Some (lit ''Bearer abc'')) q page page_size)
     = Some [(lit ''Authorization'', lit ''abc'')]
   \<and> map_option headers (route_get_server_outbound (Some (lit ''Bearer abc'')) qualified_name)
     = Some [(lit ''Authorization'', lit ''abc'')]
   \<and> lit ''abc'' \<noteq> lit ''Bearer abc''"
  by (simp add: route_defs verify_token_def startswith_def lit_simps replace.simps)

text \<open>
  C4, as the code has it. The outbound query of a List request holds \<open>q\<close> when the caller
  gave a non-empty one; \<open>page\<close> with the caller's value, or with the default 1 when the
  caller left it out, unless that value is 0; \<open>pageSize\<close> likewise with the default 10;
  and nothing else. With \<open>q = search\<close>, \<open>page = 2\<close> and \<open>pageSize = 5\<close> exactly these three
  are sent.
\<close>

theorem list_servers_outbound_params:
  "route_list_servers_outbound header q page page_size = Some r \<Longrightarrow>
     map_of (params r) (lit ''q'') =
        (case q of None \<Rightarrow> None | Some s \<Rightarrow> if s = [] then None else Some (QStr s))
   \<and> map_of (params r) (lit ''page'') =
        (case page of None \<Rightarrow> Some (QInt 1) | Some p \<Rightarrow> if p = 0 then None else Some (QInt p))
   \<and> map_of (params r) (lit ''pageSize'') =
        (case page_size of None \<Rightarrow> Some (QInt 10) | Some p \<Rightarrow> if p = 0 then None else Some (QInt p))
   \<and> fst ` set (params r) \<subseteq> {lit ''q'', lit ''page'', lit ''pageSize''}
   \<and> distinct (map fst (params r))
   \<and> (q = Some (lit ''search'') \<and> page = Some 2 \<and> page_size = Some 5 \<longrightarrow>
        params r = [(lit ''q'', QStr (lit ''search'')), (lit ''page'', QInt 2), (lit ''pageSize'', QInt 5)])"
  by (auto simp: route_defs param_names_distinct search_nonempty split: sum.splits option.splits if_splits)

theorem list_servers_outbound_params_witness:
  "route_list_servers_outbound (Some (lit ''Bearer abc'')) (Some (lit ''search'')) (Some 2) (Some 5)
     = Some (list_servers_request (Some (lit ''search'')) 2 5 (lit ''abc''))
   \<and> params (list_servers_request (Some (lit ''search'')) 2 5 (lit ''abc''))
     = [(lit ''q'', QStr (lit ''search'')), (lit ''page'', QInt 2), (lit ''pageSize'', QInt 5)]"
proof -
  have out: "route_list_servers_outbound (Some (lit ''Bearer abc'')) (Some (lit ''search'')) (Some 2) (Some 5)
     = Some (list_servers_request (Some (lit ''search'')) 2 5 (lit ''abc''))"
    by (simp add: route_list_servers_outbound_def accepted_abc)
  from list_servers_outbound_params [OF out] show ?thesis using out by simp
qed

text \<open>
  C4 as stated fails: a caller who gives no query parameter at all has \<open>page = 1\<close> and
  \<open>pageSize = 10\<close> sent out, and a caller who gives \<open>page = 0\<close> has no \<open>page\<close> sent out.
\<close>

theorem list_servers_outbound_params_counterexample:
  "map_option params (route_list_servers_outbound (Some (lit ''Bearer abc'')) None None None)
     = Some [(lit ''page'', QInt 1), (lit ''pageSize'', QInt 10)]
   \<and> map_option params (route_list_servers_outbound (Some (lit ''Bearer abc'')) None (Some 0) (Some 5))
     = Some [(lit ''pageSize'', QInt 5)]"
  by (simp add: route_defs verify_token_def startswith_def lit_simps replace.simps)

text \<open>
  C10: a falsy value is left out of the outbound request although the caller gave it
  (an empty \<open>q\<close>, \<open>page = 0\<close>, \<open>pageSize = 0\<close>), and a \<open>page\<close> or \<open>pageSize\<close> the caller
  left out goes out with the default, 1 or 10.
\<close>

theorem list_servers_falsy_and_defaults:
  "route_list_servers_outbound header q page page_size = Some r \<Longrightarrow>
     (q = Some [] \<longrightarrow> lit ''q'' \<notin> fst ` set (params r))
   \<and> (page = Some 0 \<longrightarrow> lit ''page'' \<notin> fst ` set (params r))
   \<and> (page_size = Some 0 \<longrightarrow> lit ''pageSize'' \<notin> fst ` set (params r))
   \<and> (page = None \<longrightarrow> (lit ''page'', QInt 1) \<in> set (params r))
   \<and> (page_size = None \<longrightarrow> (lit ''pageSize'', QInt 10) \<in> set (params r))"
  by (auto simp: route_defs param_names_distinct split: sum.splits option.splits if_splits)

theorem list_servers_falsy_and_defaults_witness:
  "route_list_servers_outbound (Some (lit ''Bearer abc'')) (Some []) (Some 0) None =
     Some (list_servers_request (Some []) 0 10 (lit ''abc''))
   \<and> params (list_servers_request (Some []) 0 10 (lit ''abc'')) = [(lit ''pageSize'', QInt 10)]"
proof -
  have out: "route_list_servers_outbound (Some (lit ''Bearer abc'')) (Some []) (Some 0) None =
     Some (list_servers_request (Some []) 0 10 (lit ''abc''))"
    by (simp add: route_list_servers_outbound_def accepted_abc default_page_size_def)
  from list_servers_falsy_and_defaults [OF out] show ?thesis using out
    by (simp add: list_servers_request_def list_servers_params_def)
qed

text \<open>
  C5: when the outbound call of the List or of the Detail operation comes back with a
  status that is not a success, the operation fails with an error that carries that
  status, and whose detail is a fixed prefix followed by the body of the remote answer,
  so the body stands in it verbatim.
\<close>

theorem upstream_error_propagation:
  "\<not> is_success (status_code r) \<Longrightarrow>
   (get (list_servers_request q page page_size tok) = Inr r \<longrightarrow>
      list_servers get q page page_size tok =
        Inl (HTTPException (status_code r) (lit ''Smithery Registry API error: '' @ response_text r)))
   \<and> (get (get_server_request qualified_name tok) = Inr r \<longrightarrow>
      get_server get qualified_name tok =
        Inl (HTTPException (status_code r) (lit ''Smithery Registry API error: '' @ response_text r)))
   \<and> http_status (HTTPException (status_code r) (lit ''Smithery Registry API error: '' @ response_text r))
        = status_code r
   \<and> sublist (response_text r) (lit ''Smithery Registry API error: '' @ response_text r)"
  by (auto simp: list_servers_def get_server_def forward_def is_success_def)

theorem upstream_error_propagation_witness:
  \<open>\<not> is_success 404 \<and>
   route_get_server (\<lambda>req. Inr not_found) Some (Some (lit ''Bearer abc'')) (lit ''exa'') =
     Inl (HTTPException 404 (lit ''Smithery Registry API error: {"error":"not found"}''))\<close>
proof -
  have ns: "\<not> is_success (status_code not_found)"
    by (simp add: not_found_def is_success_def)
  have acc: "route_get_server (\<lambda>req. Inr not_found) Some (Some (lit ''Bearer abc'')) (lit ''exa'') =
      validate_response Some (get_server (\<lambda>req. Inr not_found) (lit ''exa'') (lit ''abc''))"
    by (simp add: route_get_server_def accepted_abc)
  from upstream_error_propagation [OF ns, where get = "\<lambda>req. Inr not_found"
      and qualified_name = "lit ''exa''" and tok = "lit ''abc''"]
  have "get_server (\<lambda>req. Inr not_found) (lit ''exa'') (lit ''abc'') =
      Inl (HTTPException (status_code not_found)
        (lit ''Smithery Registry API error: '' @ response_text not_found))"
    by simp
  then show ?thesis
    unfolding acc by (simp add: validate_response_def not_found_def lit_def is_success_def)
qed

section \<open>The connection URL builder\<close>

lemma collect_map:
  "(\<And>x. x \<in> set xs \<Longrightarrow> f x = (if p x then Inr (g x) else Inl TypeError)) \<Longrightarrow>
   collect (map f xs) = (if list_all p xs then Inr (map g xs) else Inl TypeError)"
  by (induction xs) auto

lemma dumps_eq: "dumps v = (if serializable v then Inr (jtext v) else Inl TypeError)"
proof (induction v rule: dumps.induct)
  case (5 vs)
  have "collect (map dumps vs) = (if list_all serializable vs then Inr (map jtext vs) else Inl TypeError)"
    by (rule collect_map) (simp add: 5)
  then show ?case by simp
next
  case (6 kvs)
  let ?f = "\<lambda>(k, v). case dumps v of Inl e \<Rightarrow> Inl e
              | Inr t \<Rightarrow> Inr (encode_basestring_ascii k @ lit '': '' @ t)"
  have "collect (map ?f kvs) =
      (if list_all (\<lambda>(k, v). serializable v) kvs
       then Inr (map (\<lambda>(k, v). member_text k (jtext v)) kvs) else Inl TypeError)"
  proof (rule collect_map)
    fix x assume mem: "x \<in> set kvs"
    obtain k v where x: "x = (k, v)" by (cases x)
    from 6 [OF mem x [symmetric]]
    show "?f x = (if (case x of (k, v) \<Rightarrow> serializable v)
        then Inr (case x of (k, v) \<Rightarrow> member_text k (jtext v)) else Inl TypeError)"
      by (simp add: x member_text_def)
  qed
  then show ?case by simp
qed simp_all

lemma ex_dumps: \<open>dumps (PyDict [(lit ''key'', PyStr (lit ''value''))]) = Inr (lit ''{"key": "value"}'')\<close>
  by (simp add: lit_simps encode_basestring_ascii_def escape_char_def)

lemma encode_lit: "list_all ascii s \<Longrightarrow> encode (lit s) = Inr s"
  by (induction s) (simp_all add: lit_def utf8_char_def ascii_def)

lemma utf8_decode_ascii: "list_all ascii s \<Longrightarrow> utf8_decode (map of_char s) = Some (map of_char s)"
  by (induction s) (simp_all add: ascii_def)

lemma decode_ascii: "list_all ascii s \<Longrightarrow> decode s = Inr (lit s)"
  by (simp add: decode_def lit_def utf8_decode_ascii)

lemma ex_encode: \<open>encode (lit ''{"key": "value"}'') = Inr ''{"key": "value"}''\<close>
  by (rule encode_lit) (simp add: ascii_def)

lemma ex_b64: \<open>b64encode ''{"key": "value"}'' = ''eyJrZXkiOiAidmFsdWUifQ==''\<close>
  by (simp add: b64char_def b64chars_def)

lemma ex_decode: \<open>decode (b64encode ''{"key": "value"}'') = Inr (lit (b64encode ''{"key": "value"}''))\<close>
  unfolding ex_b64 by (rule decode_ascii) (simp add: ascii_def)

text \<open>
  C6: for \<open>qualifiedName = acme/tool\<close> and \<open>config = {"key": "value"}\<close> the URL is
  \<open>https://server.smithery.ai/acme/tool/ws?config=\<close> followed by the base64 encoding of the
  serialized JSON text, which is \<open>{"key": "value"}\<close> and encodes to
  \<open>eyJrZXkiOiAidmFsdWUifQ==\<close>.
\<close>

theorem create_websocket_url_acme_tool:
  \<open>create_websocket_url \<lparr>qualifiedName = lit ''acme/tool'', config = [(lit ''key'', PyStr (lit ''value''))]\<rparr>
     = Inr \<lparr>wsUrl = lit ''https://server.smithery.ai/acme/tool/ws?config='' @ lit (b64encode ''{"key": "value"}'')\<rparr>
   \<and> dumps (PyDict [(lit ''key'', PyStr (lit ''value''))]) = Inr (lit ''{"key": "value"}'')
   \<and> b64encode ''{"key": "value"}'' = ''eyJrZXkiOiAidmFsdWUifQ==''\<close>
proof -
  have \<open>create_websocket_url \<lparr>qualifiedName = lit ''acme/tool'', config = [(lit ''key'', PyStr (lit ''value''))]\<rparr>
     = Inr \<lparr>wsUrl = lit ''https://server.smithery.ai/'' @ lit ''acme/tool'' @ lit ''/ws?config=''
                @ lit (b64encode ''{"key": "value"}'')\<rparr>\<close>
    unfolding create_websocket_url_def
    by (simp add: ex_dumps ex_encode ex_decode del: dumps.simps b64encode.simps)
  then show ?thesis
    using ex_dumps ex_b64 by (simp add: lit_def del: dumps.simps b64encode.simps)
qed

text \<open>
  C8, as the code has it: a configuration that cannot be serialized makes the operation
  fail with the \<open>TypeError\<close> of \<open>json.dumps\<close>. The handler does not catch it, so the
  framework answers with status 500.
\<close>

theorem create_websocket_url_unserializable:
  "\<not> serializable (PyDict (config request)) \<Longrightarrow>
   create_websocket_url request = Inl TypeError \<and> http_status TypeError = 500"
  by (simp add: create_websocket_url_def dumps_eq del: dumps.simps serializable.simps)

theorem create_websocket_url_unserializable_witness:
  "\<not> serializable (PyDict [(lit ''key'', PyObject)]) \<and>
   create_websocket_url \<lparr>qualifiedName = lit ''acme/tool'', config = [(lit ''key'', PyObject)]\<rparr>
     = Inl TypeError"
  using create_websocket_url_unserializable
    [of "\<lparr>qualifiedName = lit ''acme/tool'', config = [(lit ''key'', PyObject)]\<rparr>"]
  by simp

text \<open>
  C8 as stated fails: for a configuration holding an object without a JSON encoding the
  error is the uncaught \<open>TypeError\<close>, answered with status 500, which is not a client
  error.
\<close>

theorem create_websocket_url_unserializable_counterexample:
  "create_websocket_url \<lparr>qualifiedName = lit ''acme/tool'', config = [(lit ''key'', PyObject)]\<rparr>
     = Inl TypeError
   \<and> http_status TypeError = 500
   \<and> \<not> (400 \<le> http_status TypeError \<and> http_status TypeError < 500)"
  by (simp add: create_websocket_url_def)

section \<open>Base64: decoding inverts encoding\<close>













lemma idx_bounds:
  fixes n :: nat
  shows "n < 256 \<Longrightarrow> n div 4 < 64"
    and "n mod 4 * 16 < 64"
    and "n < 65536 \<Longrightarrow> n div 1024 < 64"
    and "n div 16 mod 64 < 64"
    and "n mod 16 * 4 < 64"
    and "n < 16777216 \<Longrightarrow> n div 262144 < 64"
    and "n div 4096 mod 64 < 64"
    and "n div 64 mod 64 < 64"
    and "n mod 64 < 64"
  by simp_all













section \<open>JSON strings: scanning inverts escaping\<close>





lemma scanstring_u:
  "scanstring (92 # 117 # es) =
     (case unhex4 (take 4 es) of
        None \<Rightarrow> None
      | Some u \<Rightarrow>
          if 0xd800 \<le> u \<and> u \<le> 0xdbff \<and> take 2 (drop 4 es) = [92, 117] then
            (case unhex4 (take 4 (drop 6 es)) of
               None \<Rightarrow> None
             | Some u2 \<Rightarrow>
                 if 0xdc00 \<le> u2 \<and> u2 \<le> 0xdfff
                 then cons_char (0x10000 + (u - 0xd800) * 1024 + (u2 - 0xdc00))
                        (scanstring (drop 10 es))
                 else cons_char u (scanstring (drop 4 es)))
          else cons_char u (scanstring (drop 4 es)))"
  by simp



lemma scanstring_quote: "scanstring (34 # cs) = Some ([], cs)"
  by simp

declare scanstring.simps [simp del]






section \<open>JSON numbers: parsing inverts the decimal representation\<close>

















section \<open>JSON arrays and objects: parsing inverts serialization\<close>


















section \<open>JSON values: parsing inverts serialization\<close>








section \<open>The serialized text is ASCII; the configuration segment of the URL\<close>

















section \<open>The round trip of the connection URL\<close>










text \<open>
  The hypothesis on strings is needed: a string made of a high and a low surrogate
  code point is written as two escapes, which a parser reads as one code point.
\<close>

lemma surrogates_do_not_round_trip:
  "jtext (PyStr [0xD83D, 0xDE00]) = [34] @ [92, 117] @ lit ''d83d'' @ [92, 117] @ lit ''de00'' @ [34]"
  "loads (jtext (PyStr [0xD83D, 0xDE00])) = Some (PyStr [0x1F600])"
  by (simp_all add: loads_def encode_basestring_ascii_def escape_char_def hex4_def hexdigit_def
      lit_simps scanstring_u hexval_def cons_char_def scanstring_quote)

end
